theory Spec2Isabelle
  imports Complex_Main "HOL-Library.Char_ord" "HOL-Library.List_Lexorder"
begin

section \<open>CSVDataManager: data model\<close>

text \<open>
  The embedding follows \<^verbatim>\<open>src/src/csv_data_manager.py\<close>. Python exceptions are values:
  every function that can raise returns \<open>py_exn + 'a\<close>, with \<open>Inl\<close> the exception.
  An exception raised by the module itself carries the message the module builds; an
  exception raised inside the interpreter or pandas carries only its class.
\<close>

datatype exn_class =
    FileNotFoundError | EmptyDataError | ValueError | TypeError
  | IndexError | KeyError | OverflowError | OSError | Exception

datatype py_exn = Raise exn_class string | Lib exn_class

fun exn_class_of :: "py_exn \<Rightarrow> exn_class" where
  "exn_class_of (Raise c msg) = c"
| "exn_class_of (Lib c) = c"

text \<open>
  A dynamically typed argument: \<open>None\<close>, an \<open>int\<close>, a \<open>str\<close>, or an object of any other
  class (not path-like), given by the name of its class and its \<open>str()\<close> rendering.
\<close>

datatype pyval = PNone | PInt int | PStr string | POther string string

fun is_int :: "pyval \<Rightarrow> bool" where
  "is_int (PInt i) = True"
| "is_int v = False"

fun is_str :: "pyval \<Rightarrow> bool" where
  "is_str (PStr s) = True"
| "is_str v = False"

text \<open>
  A cell of the data frame, as pandas reads it: a number, the missing value \<open>NaN\<close>, or a
  string. Numbers are exact rationals: every finite binary64 value is one, and equality and
  order on them are those of the floats; the rounding error of binary64 arithmetic and the
  infinities are not modelled.
\<close>

datatype cell = Num rat | NaN | Str string

text \<open>The data frame: the columns in file order, each with its header.\<close>

type_synonym dataframe = "(string \<times> cell list) list"

record csv_data_manager =
  filepath :: pyval
  prefix :: "string option"
  dataframe :: dataframe
  loaded :: bool
  nr_of_data :: nat

section \<open>Rendering values as text\<close>

definition digit_char :: "nat \<Rightarrow> char" where
  "digit_char d = ''0123456789'' ! d"

fun str_nat :: "nat \<Rightarrow> string" where
  "str_nat n = (if n < 10 then [digit_char n] else str_nat (n div 10) @ [digit_char (n mod 10)])"

definition str_int :: "int \<Rightarrow> string" where
  "str_int i = (if i < 0 then CHR ''-'' # str_nat (nat (- i)) else str_nat (nat i))"

definition quote :: string where
  "quote = [CHR 0x27]"

text \<open>\<open>str(v)\<close>, as an f-string renders the value.\<close>

fun py_str :: "pyval \<Rightarrow> string" where
  "py_str PNone = ''None''"
| "py_str (PInt i) = str_int i"
| "py_str (PStr s) = s"
| "py_str (POther cls s) = s"

text \<open>\<open>str(type(v))\<close>.\<close>

fun type_name :: "pyval \<Rightarrow> string" where
  "type_name PNone = ''NoneType''"
| "type_name (PInt i) = ''int''"
| "type_name (PStr s) = ''str''"
| "type_name (POther cls s) = cls"

definition str_type :: "pyval \<Rightarrow> string" where
  "str_type v = ''<class '' @ quote @ type_name v @ quote @ ''>''"

section \<open>Python string operations\<close>

text \<open>\<open>s.startswith(p)\<close> and \<open>p in s\<close>.\<close>

fun starts_with :: "string \<Rightarrow> string \<Rightarrow> bool" where
  "starts_with [] s = True"
| "starts_with (p # ps) [] = False"
| "starts_with (p # ps) (c # cs) = (p = c \<and> starts_with ps cs)"

fun contains :: "string \<Rightarrow> string \<Rightarrow> bool" where
  "contains p [] = (p = [])"
| "contains p (c # cs) = (starts_with p (c # cs) \<or> contains p cs)"


text \<open>
  \<open>s.split(sep)\<close> for a non-empty separator: \<open>s\<close> is cut at every occurrence of \<open>sep\<close>, from
  left to right and without overlap. The module only splits on the literals \<open>'::'\<close> and
  \<open>':'\<close> (and pathlib on \<open>'/'\<close>).
\<close>

function py_split :: "string \<Rightarrow> string \<Rightarrow> string list" where
  "py_split sep [] = [[]]"
| "py_split sep (c # cs) =
     (if sep \<noteq> [] \<and> starts_with sep (c # cs) then [] # py_split sep (drop (length sep) (c # cs))
      else (case py_split sep cs of [] \<Rightarrow> [[c]] | p # ps \<Rightarrow> (c # p) # ps))"
  by pat_completeness auto
termination
  by (relation "measure (\<lambda>(sep, s). length s)") auto

text \<open>\<open>s.split()\<close>: the maximal runs of characters that are not whitespace.\<close>

definition is_space :: "char \<Rightarrow> bool" where
  "is_space c =
     (c \<in> set [CHR '' '', CHR 0x09, CHR 0x0A, CHR 0x0B, CHR 0x0C, CHR 0x0D,
                CHR 0x1C, CHR 0x1D, CHR 0x1E, CHR 0x1F])"

fun split_ws_acc :: "string \<Rightarrow> string \<Rightarrow> string list" where
  "split_ws_acc acc [] = (if acc = [] then [] else [rev acc])"
| "split_ws_acc acc (c # cs) =
     (if is_space c
      then (if acc = [] then split_ws_acc [] cs else rev acc # split_ws_acc [] cs)
      else split_ws_acc (c # acc) cs)"

definition py_split_ws :: "string \<Rightarrow> string list" where
  "py_split_ws s = split_ws_acc [] s"

text \<open>
  \<open>int(s)\<close> on a string: an optional sign and decimal digits. (Surrounding whitespace and
  underscores between digits, which \<open>int\<close> also accepts, do not occur in what the module
  passes.)
\<close>

definition digit_val :: "char \<Rightarrow> nat option" where
  "digit_val c =
     map_of [(CHR ''0'', 0), (CHR ''1'', 1), (CHR ''2'', 2), (CHR ''3'', 3), (CHR ''4'', 4),
             (CHR ''5'', 5), (CHR ''6'', 6), (CHR ''7'', 7), (CHR ''8'', 8), (CHR ''9'', 9)] c"

fun parse_nat_acc :: "nat \<Rightarrow> string \<Rightarrow> nat option" where
  "parse_nat_acc n [] = Some n"
| "parse_nat_acc n (c # cs) =
     (case digit_val c of None \<Rightarrow> None | Some d \<Rightarrow> parse_nat_acc (10 * n + d) cs)"

definition parse_nat :: "string \<Rightarrow> nat option" where
  "parse_nat s = (if s = [] then None else parse_nat_acc 0 s)"

definition py_int :: "string \<Rightarrow> py_exn + int" where
  "py_int s =
     (if s \<noteq> [] \<and> hd s = CHR ''-''
      then (case parse_nat (tl s) of None \<Rightarrow> Inl (Lib ValueError) | Some n \<Rightarrow> Inr (- int n))
      else if s \<noteq> [] \<and> hd s = CHR ''+''
      then (case parse_nat (tl s) of None \<Rightarrow> Inl (Lib ValueError) | Some n \<Rightarrow> Inr (int n))
      else (case parse_nat s of None \<Rightarrow> Inl (Lib ValueError) | Some n \<Rightarrow> Inr (int n)))"

section \<open>Loader\<close>

text \<open>
  \<open>pd.read_csv\<close> reads the file system, so its outcome is an input of the model: the parsed
  frame, or the exception it raised, by the \<open>except\<close> clause of \<open>_load_data\<close> that catches it
  (the clauses are tried in the order of the source: \<open>FileNotFoundError\<close>,
  \<open>EmptyDataError\<close>, \<open>UnicodeDecodeError\<close>, any other \<open>ValueError\<close>, \<open>TypeError\<close>, and any
  other exception with its \<open>str()\<close>).
\<close>

datatype read_exn =
    RFileNotFoundError | REmptyDataError | RUnicodeDecodeError | RValueError | RTypeError
  | ROther string

datatype read_csv_result = Parsed dataframe | Fails read_exn

text \<open>
  \<open>pathlib.Path(p).name\<close> and \<open>.suffix\<close> for a POSIX path: the last component that is
  neither empty nor \<open>.\<close>, and its text from the last dot on, when that dot is neither the
  first nor the last character of the name.
\<close>

definition path_name :: "string \<Rightarrow> string" where
  "path_name p =
     (case filter (\<lambda>s. s \<noteq> [] \<and> s \<noteq> ''.'') (py_split ''/'' p) of
        [] \<Rightarrow> []
      | c # cs \<Rightarrow> last (c # cs))"

definition name_suffix :: "string \<Rightarrow> string" where
  "name_suffix name =
     (let ext = rev (takeWhile (\<lambda>c. c \<noteq> CHR ''.'') (rev name))
      in if CHR ''.'' \<in> set name \<and> ext \<noteq> [] \<and> length ext + 1 < length name
         then CHR ''.'' # ext else [])"

fun path_suffix :: "pyval \<Rightarrow> py_exn + string" where
  "path_suffix (PStr p) = Inr (name_suffix (path_name p))"
| "path_suffix v = Inl (Lib TypeError)"

fun load_data :: "pyval \<Rightarrow> read_csv_result \<Rightarrow> py_exn + dataframe" where
  "load_data fp (Parsed df) = Inr df"
| "load_data fp (Fails RFileNotFoundError) =
     Inl (Raise FileNotFoundError (''The file '' @ py_str fp @ '' was not found.''))"
| "load_data fp (Fails REmptyDataError) =
     Inl (Raise EmptyDataError (''No columns to parse from file: '' @ py_str fp))"
| "load_data fp (Fails RUnicodeDecodeError) =
     (case path_suffix fp of
        Inl e \<Rightarrow> Inl e
      | Inr sfx \<Rightarrow> Inl (Raise ValueError (''Invalid file type: '' @ sfx)))"
| "load_data fp (Fails RValueError) =
     Inl (Raise ValueError (''Invalid file path or buffer object type: '' @ str_type fp))"
| "load_data fp (Fails RTypeError) =
     Inl (Raise TypeError (''Missing 1 required positional argument: '' @ quote @ ''filepath''))"
| "load_data fp (Fails (ROther msg)) =
     Inl (Raise Exception (''An unexpected error occurred: '' @ msg))"

text \<open>The constructor: load, then cache the column count.\<close>

definition init :: "pyval \<Rightarrow> string option \<Rightarrow> read_csv_result \<Rightarrow> py_exn + csv_data_manager" where
  "init fp pfx r =
     (case load_data fp r of
        Inl e \<Rightarrow> Inl e
      | Inr df \<Rightarrow>
          Inr \<lparr>filepath = fp, prefix = pfx, dataframe = df, loaded = True,
               nr_of_data = length df\<rparr>)"

section \<open>Accessor\<close>

definition header_list :: "csv_data_manager \<Rightarrow> string list" where
  "header_list m = map fst (dataframe m)"

definition index_list :: "csv_data_manager \<Rightarrow> nat list" where
  "index_list m = [0..<length (header_list m)]"

definition validate_index :: "csv_data_manager \<Rightarrow> pyval \<Rightarrow> py_exn + unit" where
  "validate_index m idx =
     (case idx of
        PInt i \<Rightarrow>
          if i < 0 \<or> int (nr_of_data m) \<le> i
          then Inl (Raise IndexError (''Index '' @ quote @ str_int i @ quote @ '' out of range.''))
          else Inr ()
      | _ \<Rightarrow> Inr ())"

definition validate_header :: "csv_data_manager \<Rightarrow> pyval \<Rightarrow> py_exn + unit" where
  "validate_header m hdr =
     (case hdr of
        PStr h \<Rightarrow>
          if h \<notin> set (header_list m)
          then Inl (Raise ValueError (''Header '' @ quote @ h @ quote @ '' not found''))
          else Inr ()
      | _ \<Rightarrow> Inr ())"

definition validate_input :: "csv_data_manager \<Rightarrow> pyval \<Rightarrow> pyval \<Rightarrow> py_exn + unit" where
  "validate_input m idx hdr =
     (case validate_index m idx of
        Inl e \<Rightarrow> Inl e
      | Inr u \<Rightarrow>
     (case validate_header m hdr of
        Inl e \<Rightarrow> Inl e
      | Inr u \<Rightarrow>
          if idx = PNone \<and> hdr = PNone
          then Inl (Raise ValueError ''An index or header name must be provided.'')
          else if idx \<noteq> PNone \<and> hdr \<noteq> PNone
          then Inl (Raise ValueError ''Only one of index or header name should be provided.'')
          else if hdr = PNone \<and> \<not> is_int idx
          then Inl (Raise ValueError ''Did you mean to provide the hdr? (hdr= )'')
          else if idx = PNone \<and> \<not> is_str hdr
          then Inl (Raise ValueError ''Did you mean to provide the idx? (idx= )'')
          else Inr ()))"

text \<open>
  \<open>columns.get_loc(header)\<close> followed by \<open>int(...)\<close>: the position of a header that occurs
  once. A header that occurs several times gives a slice or a mask, which \<open>int\<close> rejects;
  a header that does not occur is a \<open>KeyError\<close>, which the module never reaches because
  \<open>validate_header\<close> runs first.
\<close>

definition get_loc :: "string list \<Rightarrow> string \<Rightarrow> py_exn + int" where
  "get_loc hs h =
     (case filter (\<lambda>i. hs ! i = h) [0..<length hs] of
        [] \<Rightarrow> Inl (Lib KeyError)
      | [i] \<Rightarrow> Inr (int i)
      | _ \<Rightarrow> Inl (Lib TypeError))"

definition get_header :: "csv_data_manager \<Rightarrow> int \<Rightarrow> py_exn + string" where
  "get_header m index =
     (case validate_index m (PInt index) of
        Inl e \<Rightarrow> Inl e
      | Inr u \<Rightarrow> Inr (header_list m ! nat index))"

definition get_index :: "csv_data_manager \<Rightarrow> string \<Rightarrow> py_exn + int" where
  "get_index m header =
     (case validate_header m (PStr header) of
        Inl e \<Rightarrow> Inl e
      | Inr u \<Rightarrow> get_loc (header_list m) header)"

text \<open>
  \<open>DataFrame.get(header)\<close> gives \<open>None\<close> for a key that is no column. \<open>iloc[:, index]\<close> is
  only reached with an \<open>int\<close> that \<open>validate_index\<close> has accepted; pandas rejects any other
  position.
\<close>

definition get_data_by_header :: "csv_data_manager \<Rightarrow> pyval \<Rightarrow> py_exn + cell list option" where
  "get_data_by_header m header =
     (case validate_header m header of
        Inl e \<Rightarrow> Inl e
      | Inr u \<Rightarrow> (case header of PStr h \<Rightarrow> Inr (map_of (dataframe m) h) | _ \<Rightarrow> Inr None))"

definition get_data_by_index :: "csv_data_manager \<Rightarrow> pyval \<Rightarrow> py_exn + cell list option" where
  "get_data_by_index m index =
     (case validate_index m index of
        Inl e \<Rightarrow> Inl e
      | Inr u \<Rightarrow>
          (case index of
             PInt i \<Rightarrow> Inr (Some (snd (dataframe m ! nat i)))
           | _ \<Rightarrow> Inl (Lib TypeError)))"

definition get_raw_data :: "csv_data_manager \<Rightarrow> pyval \<Rightarrow> pyval \<Rightarrow> py_exn + cell list option" where
  "get_raw_data m idx hdr =
     (case validate_input m idx hdr of
        Inl e \<Rightarrow> Inl e
      | Inr u \<Rightarrow> if idx \<noteq> PNone then get_data_by_index m idx else get_data_by_header m hdr)"

text \<open>
  \<open>float(value)\<close> on a cell. pandas keeps a cell as a string only in a column it could not
  read as numbers, so \<open>get_data\<close> on such a column ends in the \<open>ValueError\<close> of \<open>float\<close>; the
  model raises it at the first string cell.
\<close>

fun py_float :: "cell \<Rightarrow> py_exn + cell" where
  "py_float (Num r) = Inr (Num r)"
| "py_float NaN = Inr NaN"
| "py_float (Str s) = Inl (Lib ValueError)"

fun map_exn :: "('a \<Rightarrow> py_exn + 'b) \<Rightarrow> 'a list \<Rightarrow> py_exn + 'b list" where
  "map_exn f [] = Inr []"
| "map_exn f (x # xs) =
     (case f x of
        Inl e \<Rightarrow> Inl e
      | Inr y \<Rightarrow> (case map_exn f xs of Inl e \<Rightarrow> Inl e | Inr ys \<Rightarrow> Inr (y # ys)))"

definition get_data :: "csv_data_manager \<Rightarrow> pyval \<Rightarrow> pyval \<Rightarrow> py_exn + cell list" where
  "get_data m idx hdr =
     (case get_raw_data m idx hdr of
        Inl e \<Rightarrow> Inl e
      | Inr None \<Rightarrow> Inl (Lib TypeError)
      | Inr (Some col) \<Rightarrow> map_exn py_float col)"

section \<open>Classifier\<close>







text \<open>
  Elementwise \<open>==\<close> of pandas: numbers by value, strings by text; \<open>NaN\<close> equals nothing, and a
  number never equals a string.
\<close>

fun cell_eq :: "cell \<Rightarrow> cell \<Rightarrow> bool" where
  "cell_eq (Num a) (Num b) = (a = b)"
| "cell_eq (Str a) (Str b) = (a = b)"
| "cell_eq x y = False"

text \<open>
  \<open>const_data_index_list\<close>: \<open>datafram_col.iloc[0]\<close> raises \<open>IndexError\<close> on a column without
  rows.
\<close>

fun const_data_loop :: "nat \<Rightarrow> dataframe \<Rightarrow> nat list \<Rightarrow> py_exn + nat list" where
  "const_data_loop idx [] acc = Inr acc"
| "const_data_loop idx ((column, datafram_col) # rest) acc =
     (case datafram_col of
        [] \<Rightarrow> Inl (Lib IndexError)
      | first # _ \<Rightarrow>
          const_data_loop (Suc idx) rest
            (if list_all (\<lambda>v. cell_eq v first) datafram_col then acc @ [idx] else acc))"

definition const_data_index_list :: "csv_data_manager \<Rightarrow> py_exn + nat list" where
  "const_data_index_list m = const_data_loop 0 (dataframe m) []"

fun const_zero_data_loop :: "nat \<Rightarrow> dataframe \<Rightarrow> nat list \<Rightarrow> nat list" where
  "const_zero_data_loop idx [] acc = acc"
| "const_zero_data_loop idx ((column, datafram_col) # rest) acc =
     const_zero_data_loop (Suc idx) rest
       (if list_all (\<lambda>v. cell_eq v (Num 0)) datafram_col then acc @ [idx] else acc)"

definition const_zero_data_index_list :: "csv_data_manager \<Rightarrow> nat list" where
  "const_zero_data_index_list m = const_zero_data_loop 0 (dataframe m) []"

text \<open>
  \<open>varying_data_index_list\<close> returns \<open>[set(...) ^ set(...)]\<close>: a list whose single element is
  the symmetric difference of the two sets.
\<close>

definition sym_diff :: "'a set \<Rightarrow> 'a set \<Rightarrow> 'a set" where
  "sym_diff A B = (A - B) \<union> (B - A)"

definition varying_data_index_list :: "csv_data_manager \<Rightarrow> py_exn + nat set list" where
  "varying_data_index_list m =
     (case const_data_index_list m of
        Inl e \<Rightarrow> Inl e
      | Inr cs \<Rightarrow> Inr [sym_diff (set cs) (set (index_list m))])"

text \<open>
  The failures of the selector validation, by the \<open>raise\<close> statement that produces them. All
  but the first are \<open>ValueError\<close>s and differ in their message only.
\<close>

definition index_out_of_range :: "int \<Rightarrow> py_exn" where
  "index_out_of_range i =
     Raise IndexError (''Index '' @ quote @ str_int i @ quote @ '' out of range.'')"

definition header_not_found :: "string \<Rightarrow> py_exn" where
  "header_not_found h = Raise ValueError (''Header '' @ quote @ h @ quote @ '' not found'')"

definition missing_selector :: py_exn where
  "missing_selector = Raise ValueError ''An index or header name must be provided.''"

definition ambiguous_selector :: py_exn where
  "ambiguous_selector = Raise ValueError ''Only one of index or header name should be provided.''"

definition type_mismatch_index :: py_exn where
  "type_mismatch_index = Raise ValueError ''Did you mean to provide the hdr? (hdr= )''"

definition type_mismatch_header :: py_exn where
  "type_mismatch_header = Raise ValueError ''Did you mean to provide the idx? (idx= )''"

text \<open>The conditions under which \<open>validate_index\<close> and \<open>validate_header\<close> raise.\<close>

definition index_rejected :: "csv_data_manager \<Rightarrow> pyval \<Rightarrow> bool" where
  "index_rejected m idx = (case idx of PInt i \<Rightarrow> i < 0 \<or> int (nr_of_data m) \<le> i | _ \<Rightarrow> False)"

definition header_rejected :: "csv_data_manager \<Rightarrow> pyval \<Rightarrow> bool" where
  "header_rejected m hdr = (case hdr of PStr h \<Rightarrow> h \<notin> set (header_list m) | _ \<Rightarrow> False)"

text \<open>
  The row count of a frame, and the shape pandas guarantees: every column has as many
  cells as the frame has rows.
\<close>

definition row_count :: "dataframe \<Rightarrow> nat" where
  "row_count df = (case df of [] \<Rightarrow> 0 | (column, datafram_col) # rest \<Rightarrow> length datafram_col)"

definition rectangular :: "dataframe \<Rightarrow> bool" where
  "rectangular df = list_all (\<lambda>c. length (snd c) = row_count df) df"

text \<open>
  What the two loops test on a column: all cells equal the first one, and all cells equal
  zero.
\<close>

definition is_constant :: "cell list \<Rightarrow> bool" where
  "is_constant col = (case col of [] \<Rightarrow> False | first # rest \<Rightarrow> list_all (\<lambda>v. cell_eq v first) col)"

definition is_constant_zero :: "cell list \<Rightarrow> bool" where
  "is_constant_zero col = list_all (\<lambda>v. cell_eq v (Num 0)) col"









section \<open>Transform\<close>















section \<open>A sample table\<close>

definition sample_df :: dataframe where
  "sample_df =
     [(''time index'', [Num 1699972450.123, Num 1699972451.623, Num 1699976055]),
      (''Truma_n_AmcuDebugData::operationTime'', [Num 5, Num 7, Num 6]),
      (''Truma_n_AmcuDebugData::errorCode'', [Num 0, Num 0, Num 0]),
      (''mode'', [Str ''on'', Str ''on'', Str ''on''])]"

definition sample_manager :: csv_data_manager where
  "sample_manager =
     \<lparr>filepath = PStr ''log.csv'', prefix = Some ''Truma_n_'', dataframe = sample_df,
      loaded = True, nr_of_data = 4\<rparr>"

text \<open>A frame with a header row and no data rows, as \<open>read_csv\<close> gives for such a file.\<close>

definition header_only_manager :: csv_data_manager where
  "header_only_manager =
     \<lparr>filepath = PStr ''empty.csv'', prefix = Some ''Truma_n_'',
      dataframe = [(''time index'', []), (''speed'', [])], loaded = True, nr_of_data = 2\<rparr>"


section \<open>Lookup by index and by header\<close>

lemma init_sample:
  "init (PStr ''log.csv'') (Some ''Truma_n_'') (Parsed sample_df) = Inr sample_manager"
  by (simp add: init_def sample_manager_def sample_df_def)

lemma init_nr_of_data:
  "init fp pfx r = Inr m \<Longrightarrow> nr_of_data m = length (header_list m)"
  by (auto simp: init_def header_list_def split: sum.splits)

lemma filter_eq_index: "filter (\<lambda>j. j = i) [0..<n] = (if i < n then [i] else [])"
  by (induction n) auto

lemma positions_of_distinct:
  assumes "distinct hs" and "i < length hs"
  shows "filter (\<lambda>j. hs ! j = hs ! i) [0..<length hs] = [i]"
proof -
  have "filter (\<lambda>j. hs ! j = hs ! i) [0..<length hs] = filter (\<lambda>j. j = i) [0..<length hs]"
    using assms by (intro filter_cong) (auto simp: nth_eq_iff_index_eq)
  then show ?thesis
    using assms by (simp add: filter_eq_index)
qed

lemma get_loc_nth: "distinct hs \<Longrightarrow> i < length hs \<Longrightarrow> get_loc hs (hs ! i) = Inr (int i)"
  by (simp add: get_loc_def positions_of_distinct)

text \<open>
  Claim C9. On a loaded table whose headers are pairwise different, every index \<open>i\<close> with
  \<open>0 \<le> i < columnCount\<close> has a header, and \<open>get_index\<close> of that header is \<open>i\<close> again.
\<close>

theorem get_index_get_header:
  assumes "init fp pfx r = Inr m"
    and "distinct (header_list m)"
    and "0 \<le> i" and "i < int (nr_of_data m)"
  shows "\<exists>h. get_header m i = Inr h \<and> get_index m h = Inr i"
proof -
  have n: "nr_of_data m = length (header_list m)"
    using assms(1) by (rule init_nr_of_data)
  let ?h = "header_list m ! nat i"
  have i: "nat i < length (header_list m)"
    using assms(3,4) n by simp
  have "get_header m i = Inr ?h"
    using assms(3,4) by (simp add: get_header_def validate_index_def)
  moreover have "get_index m ?h = Inr i"
    using get_loc_nth [OF assms(2) i] i assms(3)
    by (simp add: get_index_def validate_header_def)
  ultimately show ?thesis by blast
qed

theorem get_index_get_header_witness:
  "init (PStr ''log.csv'') (Some ''Truma_n_'') (Parsed sample_df) = Inr sample_manager
   \<and> distinct (header_list sample_manager)
   \<and> get_header sample_manager 1 = Inr ''Truma_n_AmcuDebugData::operationTime''
   \<and> get_index sample_manager ''Truma_n_AmcuDebugData::operationTime'' = Inr 1"
proof -
  have d: "distinct (header_list sample_manager)"
    by (simp add: header_list_def sample_manager_def sample_df_def)
  have h: "get_header sample_manager 1 = Inr ''Truma_n_AmcuDebugData::operationTime''"
    by (simp add: get_header_def validate_index_def header_list_def sample_manager_def
        sample_df_def)
  have "\<exists>h. get_header sample_manager 1 = Inr h \<and> get_index sample_manager h = Inr 1"
    using get_index_get_header [OF init_sample d, of 1] by (simp add: sample_manager_def)
  with h d init_sample show ?thesis by auto
qed

section \<open>Selector validation\<close>

lemma validate_index_cases:
  "validate_index m idx =
     (case idx of
        PInt i \<Rightarrow> if index_rejected m idx then Inl (index_out_of_range i) else Inr ()
      | _ \<Rightarrow> Inr ())"
  by (simp add: validate_index_def index_rejected_def index_out_of_range_def split: pyval.splits)

lemma validate_header_cases:
  "validate_header m hdr =
     (case hdr of
        PStr h \<Rightarrow> if header_rejected m hdr then Inl (header_not_found h) else Inr ()
      | _ \<Rightarrow> Inr ())"
  by (simp add: validate_header_def header_rejected_def header_not_found_def split: pyval.splits)

lemma validate_input_both:
  assumes "idx \<noteq> PNone" and "hdr \<noteq> PNone"
  shows "validate_input m idx hdr =
     Inl (if index_rejected m idx then index_out_of_range (case idx of PInt i \<Rightarrow> i | _ \<Rightarrow> 0)
          else if header_rejected m hdr
          then header_not_found (case hdr of PStr h \<Rightarrow> h | _ \<Rightarrow> [])
          else ambiguous_selector)"
  using assms
  by (cases idx; cases hdr)
     (simp_all add: validate_input_def validate_index_cases validate_header_cases
        ambiguous_selector_def index_rejected_def header_rejected_def)

text \<open>
  Claim C2, as the code has it. \<open>validate_input\<close> calls \<open>validate_index\<close> and
  \<open>validate_header\<close> before it looks at the combination. So with both selectors given the
  call always fails, but with the ambiguous-selector error only when the index is not an
  out-of-range integer and the header is not an unknown string; otherwise the index error,
  then the header error, comes first. With neither selector it fails with the
  missing-selector error, and with exactly one selector of the wrong type for its slot with
  the type-mismatch error of that slot.
\<close>

theorem validate_input_invalid_combinations:
  "(idx \<noteq> PNone \<and> hdr \<noteq> PNone \<longrightarrow>
      (\<exists>e. validate_input m idx hdr = Inl e)
      \<and> (\<not> index_rejected m idx \<and> \<not> header_rejected m hdr \<longrightarrow>
           validate_input m idx hdr = Inl ambiguous_selector)
      \<and> (index_rejected m idx \<longrightarrow>
           (\<exists>i. idx = PInt i \<and> validate_input m idx hdr = Inl (index_out_of_range i)))
      \<and> (\<not> index_rejected m idx \<and> header_rejected m hdr \<longrightarrow>
           (\<exists>h. hdr = PStr h \<and> validate_input m idx hdr = Inl (header_not_found h))))
   \<and> (idx = PNone \<and> hdr = PNone \<longrightarrow> validate_input m idx hdr = Inl missing_selector)
   \<and> (hdr = PNone \<and> idx \<noteq> PNone \<and> \<not> is_int idx \<longrightarrow>
        validate_input m idx hdr = Inl type_mismatch_index)
   \<and> (idx = PNone \<and> hdr \<noteq> PNone \<and> \<not> is_str hdr \<longrightarrow>
        validate_input m idx hdr = Inl type_mismatch_header)"
proof (intro conjI impI)
  assume both: "idx \<noteq> PNone \<and> hdr \<noteq> PNone"
  then have eq: "validate_input m idx hdr =
     Inl (if index_rejected m idx then index_out_of_range (case idx of PInt i \<Rightarrow> i | _ \<Rightarrow> 0)
          else if header_rejected m hdr
          then header_not_found (case hdr of PStr h \<Rightarrow> h | _ \<Rightarrow> [])
          else ambiguous_selector)"
    by (simp add: validate_input_both)
  show "\<exists>e. validate_input m idx hdr = Inl e"
    using eq by blast
  show "validate_input m idx hdr = Inl ambiguous_selector"
    if "\<not> index_rejected m idx \<and> \<not> header_rejected m hdr"
    using eq that by simp
  show "\<exists>i. idx = PInt i \<and> validate_input m idx hdr = Inl (index_out_of_range i)"
    if "index_rejected m idx"
    using eq that by (cases idx) (simp_all add: index_rejected_def)
  show "\<exists>h. hdr = PStr h \<and> validate_input m idx hdr = Inl (header_not_found h)"
    if "\<not> index_rejected m idx \<and> header_rejected m hdr"
    using eq that by (cases hdr) (simp_all add: header_rejected_def)
next
  assume "idx = PNone \<and> hdr = PNone"
  then show "validate_input m idx hdr = Inl missing_selector"
    by (simp add: validate_input_def validate_index_def validate_header_def missing_selector_def)
next
  assume "hdr = PNone \<and> idx \<noteq> PNone \<and> \<not> is_int idx"
  then show "validate_input m idx hdr = Inl type_mismatch_index"
    by (cases idx)
       (simp_all add: validate_input_def validate_index_def validate_header_def
          type_mismatch_index_def)
next
  assume "idx = PNone \<and> hdr \<noteq> PNone \<and> \<not> is_str hdr"
  then show "validate_input m idx hdr = Inl type_mismatch_header"
    by (cases hdr)
       (simp_all add: validate_input_def validate_index_def validate_header_def
          type_mismatch_header_def)
qed

lemma sample_rejections:
  "\<not> index_rejected sample_manager (PInt 1)"
  "index_rejected sample_manager (PInt 7)"
  "\<not> header_rejected sample_manager (PStr ''mode'')"
  "header_rejected sample_manager (PStr ''speed'')"
  by (simp_all add: index_rejected_def header_rejected_def header_list_def sample_manager_def
      sample_df_def)

theorem validate_input_invalid_combinations_witness:
  "validate_input sample_manager (PInt 1) (PStr ''mode'') = Inl ambiguous_selector
   \<and> validate_input sample_manager (PInt 7) (PStr ''mode'') = Inl (index_out_of_range 7)
   \<and> validate_input sample_manager (PInt 1) (PStr ''speed'') = Inl (header_not_found ''speed'')
   \<and> validate_input sample_manager PNone PNone = Inl missing_selector
   \<and> validate_input sample_manager (PStr ''mode'') PNone = Inl type_mismatch_index
   \<and> validate_input sample_manager PNone (PInt 1) = Inl type_mismatch_header"
  using validate_input_invalid_combinations [of "PInt 1" "PStr ''mode''" sample_manager]
    validate_input_invalid_combinations [of "PInt 7" "PStr ''mode''" sample_manager]
    validate_input_invalid_combinations [of "PInt 1" "PStr ''speed''" sample_manager]
    validate_input_invalid_combinations [of PNone PNone sample_manager]
    validate_input_invalid_combinations [of "PStr ''mode''" PNone sample_manager]
    validate_input_invalid_combinations [of PNone "PInt 1" sample_manager]
  by (simp add: sample_rejections)

text \<open>
  Claim C2 as stated fails: with both selectors given and the index out of range, the
  call fails with the index error and not with the ambiguous-selector error.
\<close>

theorem validate_input_both_not_ambiguous:
  "PInt 7 \<noteq> PNone \<and> PStr ''mode'' \<noteq> PNone
   \<and> validate_input sample_manager (PInt 7) (PStr ''mode'')
       = Inl (Raise IndexError (''Index '' @ quote @ ''7'' @ quote @ '' out of range.''))
   \<and> validate_input sample_manager (PInt 7) (PStr ''mode'') \<noteq> Inl ambiguous_selector"
  by (simp add: validate_input_def validate_index_def sample_manager_def str_int_def
      digit_char_def ambiguous_selector_def)

section \<open>Constant and varying columns\<close>

lemma init_header_only:
  "init (PStr ''empty.csv'') (Some ''Truma_n_'') (Parsed [(''time index'', []), (''speed'', [])])
     = Inr header_only_manager"
  by (simp add: init_def header_only_manager_def)

lemma idx_set_Cons:
  "{idx + j |j. j < Suc n \<and> P ((x # xs) ! j)} =
     (if P x then {idx} else {}) \<union> {Suc idx + j |j. j < n \<and> P (xs ! j)}"
  apply (auto simp: less_Suc_eq_0_disj)
  done

lemma const_data_loop_set:
  "const_data_loop idx df acc = Inr cs \<Longrightarrow>
     set cs = set acc \<union> {idx + j |j. j < length df \<and> is_constant (snd (df ! j))}"
proof (induction df arbitrary: idx acc)
  case Nil
  then show ?case by simp
next
  case (Cons c df)
  obtain h col where c: "c = (h, col)" by (cases c)
  from Cons.prems c obtain x xs where col: "col = x # xs"
    by (cases col) auto
  let ?acc = "if list_all (\<lambda>v. cell_eq v x) col then acc @ [idx] else acc"
  have "const_data_loop (Suc idx) df ?acc = Inr cs"
    using Cons.prems c col by simp
  from Cons.IH [OF this] show ?case
    unfolding c length_Cons
    by (subst idx_set_Cons [where P = "\<lambda>c. is_constant (snd c)"]) (auto simp: col is_constant_def)
qed

lemma const_data_loop_returns:
  "\<forall>c \<in> set df. snd c \<noteq> [] \<Longrightarrow> \<exists>cs. const_data_loop idx df acc = Inr cs"
  by (induction df arbitrary: idx acc) (auto split: list.splits)

lemma const_zero_data_loop_set:
  "set (const_zero_data_loop idx df acc) =
     set acc \<union> {idx + j |j. j < length df \<and> is_constant_zero (snd (df ! j))}"
proof (induction df arbitrary: idx acc)
  case Nil
  then show ?case by simp
next
  case (Cons c df)
  obtain h col where c: "c = (h, col)" by (cases c)
  show ?case
    unfolding c length_Cons
    by (subst idx_set_Cons [where P = "\<lambda>c. is_constant_zero (snd c)"])
       (auto simp: Cons.IH is_constant_zero_def)
qed

lemma cell_eq_zero: "cell_eq v (Num 0) \<longleftrightarrow> v = Num 0"
  by (cases v) auto

lemma constant_zero_is_constant: "col \<noteq> [] \<Longrightarrow> is_constant_zero col \<Longrightarrow> is_constant col"
  by (cases col) (auto simp: is_constant_zero_def is_constant_def cell_eq_zero list_all_iff)

lemma rectangular_nonempty:
  "rectangular df \<Longrightarrow> 0 < row_count df \<Longrightarrow> \<forall>c \<in> set df. snd c \<noteq> []"
  by (auto simp: rectangular_def list_all_iff)

text \<open>
  Claim C10, as the code has it. On a table with at least one row, \<open>const_data_index_list\<close>
  returns, and every index of \<open>const_zero_data_index_list\<close> is among its indices.
\<close>

theorem const_zero_subset_const:
  assumes "rectangular (dataframe m)" and "0 < row_count (dataframe m)"
  shows "\<exists>cs. const_data_index_list m = Inr cs \<and> set (const_zero_data_index_list m) \<subseteq> set cs"
proof -
  have ne: "\<forall>c \<in> set (dataframe m). snd c \<noteq> []"
    using assms by (rule rectangular_nonempty)
  then obtain cs where cs: "const_data_index_list m = Inr cs"
    unfolding const_data_index_list_def using const_data_loop_returns by blast
  have "set (const_zero_data_index_list m) \<subseteq> set cs"
  proof
    fix i assume "i \<in> set (const_zero_data_index_list m)"
    then have i: "i < length (dataframe m)" "is_constant_zero (snd (dataframe m ! i))"
      by (auto simp: const_zero_data_index_list_def const_zero_data_loop_set)
    then have "is_constant (snd (dataframe m ! i))"
      using ne by (intro constant_zero_is_constant) auto
    with i(1) show "i \<in> set cs"
      using const_data_loop_set [OF cs [unfolded const_data_index_list_def]] by auto
  qed
  with cs show ?thesis by blast
qed

theorem const_zero_subset_const_witness:
  "rectangular (dataframe sample_manager) \<and> 0 < row_count (dataframe sample_manager)
   \<and> const_data_index_list sample_manager = Inr [2, 3]
   \<and> const_zero_data_index_list sample_manager = [2]
   \<and> set (const_zero_data_index_list sample_manager) \<subseteq> set [2, 3]"
proof -
  have r: "rectangular (dataframe sample_manager)"
    by (simp add: rectangular_def row_count_def sample_manager_def sample_df_def)
  have p: "0 < row_count (dataframe sample_manager)"
    by (simp add: row_count_def sample_manager_def sample_df_def)
  have c: "const_data_index_list sample_manager = Inr [2, 3]"
    by (simp add: const_data_index_list_def sample_manager_def sample_df_def)
  have z: "const_zero_data_index_list sample_manager = [2]"
    by (simp add: const_zero_data_index_list_def sample_manager_def sample_df_def)
  from const_zero_subset_const [OF r p] obtain cs
    where cs: "const_data_index_list sample_manager = Inr cs"
      and sub: "set (const_zero_data_index_list sample_manager) \<subseteq> set cs"
    by blast
  from cs c have "cs = [2, 3]"
    by (simp only: sum.inject)
  with sub have "set (const_zero_data_index_list sample_manager) \<subseteq> set [2, 3]"
    by (simp only:)
  with r p c z show ?thesis
    by (intro conjI)
qed

text \<open>
  Claim C10 as stated fails on a table without rows: every column is constant zero, and
  \<open>const_data_index_list\<close> raises \<open>IndexError\<close> at \<open>iloc[0]\<close>.
\<close>

theorem const_data_raises_without_rows:
  "init (PStr ''empty.csv'') (Some ''Truma_n_'') (Parsed [(''time index'', []), (''speed'', [])])
     = Inr header_only_manager
   \<and> const_zero_data_index_list header_only_manager = [0, 1]
   \<and> const_data_index_list header_only_manager = Inl (Lib IndexError)"
  by (simp add: init_def header_only_manager_def const_zero_data_index_list_def
      const_data_index_list_def)

lemma const_data_in_range:
  assumes "const_data_index_list m = Inr cs"
  shows "set cs \<subseteq> set (index_list m)"
proof -
  have "const_data_loop 0 (dataframe m) [] = Inr cs"
    using assms by (simp only: const_data_index_list_def)
  then have eq: "set cs = {j. j < length (dataframe m) \<and> is_constant (snd (dataframe m ! j))}"
    by (simp add: const_data_loop_set)
  show ?thesis
    unfolding eq index_list_def header_list_def by auto
qed

lemma varying_is_complement_in_a_list:
  assumes "const_data_index_list m = Inr cs"
  shows "varying_data_index_list m = Inr [set (index_list m) - set cs]"
  using const_data_in_range [OF assms] assms
  by (auto simp: varying_data_index_list_def sym_diff_def)

text \<open>
  Claim C1. \<open>varying_data_index_list\<close> does not return the complement of the constant
  columns: it returns a list with one element, and that element is the complement. On the
  sample table the constant columns are 2 and 3, and the result is \<open>[{0, 1}]\<close>.
\<close>

theorem varying_data_index_list_sample:
  "const_data_index_list sample_manager = Inr [2, 3]
   \<and> index_list sample_manager = [0, 1, 2, 3]
   \<and> varying_data_index_list sample_manager = Inr [{0, 1}]"
proof -
  have c: "const_data_index_list sample_manager = Inr [2, 3]"
    by (simp add: const_data_index_list_def sample_manager_def sample_df_def)
  have i: "index_list sample_manager = [0, 1, 2, 3]"
    by (simp add: index_list_def header_list_def sample_manager_def sample_df_def upt_rec)
  have "set [0, 1, 2, 3] - set [2, 3] = {0, 1 :: nat}"
    by auto
  with varying_is_complement_in_a_list [OF c] c i show ?thesis
    by simp
qed

section \<open>Load-time failures\<close>

lemma starts_with_append: "starts_with p (p @ b)"
  by (induction p) auto

lemma starts_with_contains: "starts_with p s \<Longrightarrow> contains p s"
  by (cases s; cases p) auto

lemma contains_append: "contains p (a @ p @ b)"
proof (induction a)
  case Nil
  show ?case by (simp add: starts_with_append starts_with_contains)
next
  case (Cons c a)
  then show ?case by simp
qed

lemma contains_suffix: "contains p (a @ p)"
  using contains_append [of p a "[]"] by simp

text \<open>
  Claim C8, as the code has it. The six load-time failures are raised as five exception
  classes: \<open>FileNotFoundError\<close>, \<open>EmptyDataError\<close>, \<open>ValueError\<close> (for an undecodable file and
  for an invalid path type alike), \<open>TypeError\<close> and \<open>Exception\<close>. The message names the file
  path for the first two, the file's extension for an undecodable file, the type of the
  argument for an invalid path type, and the underlying cause for an unexpected error; the
  message of the missing-argument failure is fixed. Loading the non-existent path
  \<open>missing.csv\<close> raises \<open>FileNotFoundError\<close> with a message that names the path.
\<close>

theorem load_failure_kinds:
  "(\<exists>msg. load_data fp (Fails RFileNotFoundError) = Inl (Raise FileNotFoundError msg)
         \<and> contains (py_str fp) msg)
   \<and> (\<exists>msg. load_data fp (Fails REmptyDataError) = Inl (Raise EmptyDataError msg)
         \<and> contains (py_str fp) msg)
   \<and> (\<exists>msg. load_data (PStr p) (Fails RUnicodeDecodeError) = Inl (Raise ValueError msg)
         \<and> contains (name_suffix (path_name p)) msg)
   \<and> (\<exists>msg. load_data fp (Fails RValueError) = Inl (Raise ValueError msg)
         \<and> contains (str_type fp) msg)
   \<and> load_data fp (Fails RTypeError)
        = Inl (Raise TypeError (''Missing 1 required positional argument: '' @ quote @ ''filepath''))
   \<and> (\<exists>msg. load_data fp (Fails (ROther cause)) = Inl (Raise Exception msg)
         \<and> contains cause msg)
   \<and> load_data (PStr ''missing.csv'') (Fails RFileNotFoundError)
        = Inl (Raise FileNotFoundError ''The file missing.csv was not found.'')"
proof (intro conjI)
  show "\<exists>msg. load_data fp (Fails RFileNotFoundError) = Inl (Raise FileNotFoundError msg)
         \<and> contains (py_str fp) msg"
    using contains_append [of "py_str fp" "''The file ''" "'' was not found.''"] by simp
  show "\<exists>msg. load_data fp (Fails REmptyDataError) = Inl (Raise EmptyDataError msg)
         \<and> contains (py_str fp) msg"
    using contains_suffix [of "py_str fp" "''No columns to parse from file: ''"] by simp
  show "\<exists>msg. load_data (PStr p) (Fails RUnicodeDecodeError) = Inl (Raise ValueError msg)
         \<and> contains (name_suffix (path_name p)) msg"
    using contains_suffix [of "name_suffix (path_name p)" "''Invalid file type: ''"] by simp
  show "\<exists>msg. load_data fp (Fails RValueError) = Inl (Raise ValueError msg)
         \<and> contains (str_type fp) msg"
    using contains_suffix [of "str_type fp" "''Invalid file path or buffer object type: ''"]
    by simp
  show "load_data fp (Fails RTypeError)
        = Inl (Raise TypeError (''Missing 1 required positional argument: '' @ quote @ ''filepath''))"
    by simp
  show "\<exists>msg. load_data fp (Fails (ROther cause)) = Inl (Raise Exception msg)
         \<and> contains cause msg"
    using contains_suffix [of cause "''An unexpected error occurred: ''"] by simp
  show "load_data (PStr ''missing.csv'') (Fails RFileNotFoundError)
        = Inl (Raise FileNotFoundError ''The file missing.csv was not found.'')"
    by simp
qed

theorem load_failure_kinds_witness:
  "load_data (PStr ''logs/run.xlsx'') (Fails RUnicodeDecodeError)
     = Inl (Raise ValueError ''Invalid file type: .xlsx'')
   \<and> contains ''.xlsx'' ''Invalid file type: .xlsx''
   \<and> load_data (PStr ''missing.csv'') (Fails RFileNotFoundError)
        = Inl (Raise FileNotFoundError ''The file missing.csv was not found.'')"
proof -
  have s: "name_suffix (path_name ''logs/run.xlsx'') = ''.xlsx''"
    by (simp add: name_suffix_def path_name_def)
  have l: "load_data (PStr ''logs/run.xlsx'') (Fails RUnicodeDecodeError)
     = Inl (Raise ValueError ''Invalid file type: .xlsx'')"
    by (simp add: s)
  from load_failure_kinds [of "PStr ''missing.csv''" "''logs/run.xlsx''" "''boom''"]
  obtain msg where "load_data (PStr ''logs/run.xlsx'') (Fails RUnicodeDecodeError)
       = Inl (Raise ValueError msg)" and c: "contains (name_suffix (path_name ''logs/run.xlsx'')) msg"
    and f: "load_data (PStr ''missing.csv'') (Fails RFileNotFoundError)
        = Inl (Raise FileNotFoundError ''The file missing.csv was not found.'')"
    by blast
  with l have "msg = ''Invalid file type: .xlsx''"
    by (simp only: sum.inject py_exn.inject)
  with c s have "contains ''.xlsx'' ''Invalid file type: .xlsx''"
    by (simp only:)
  with l f show ?thesis by (intro conjI)
qed

text \<open>
  Claim C8 as stated fails: an undecodable file and an invalid path type raise the same
  class, \<open>ValueError\<close>, and the message of the missing-argument failure holds neither the
  path nor its type.
\<close>

theorem load_failures_not_distinct:
  "load_data (PStr ''logs/run.xlsx'') (Fails RUnicodeDecodeError)
     = Inl (Raise ValueError ''Invalid file type: .xlsx'')
   \<and> load_data (PInt 4) (Fails RValueError)
     = Inl (Raise ValueError
         (''Invalid file path or buffer object type: <class '' @ quote @ ''int'' @ quote @ ''>''))
   \<and> load_data (PStr ''logs/run.csv'') (Fails RTypeError)
     = Inl (Raise TypeError (''Missing 1 required positional argument: '' @ quote @ ''filepath''))
   \<and> \<not> contains ''logs/run.csv''
         (''Missing 1 required positional argument: '' @ quote @ ''filepath'')
   \<and> \<not> contains (str_type (PStr ''logs/run.csv''))
         (''Missing 1 required positional argument: '' @ quote @ ''filepath'')"
  by (simp add: name_suffix_def path_name_def str_type_def quote_def)

section \<open>Header groups\<close>




















section \<open>Extrema\<close>


















end
